theory Spec2Isabelle
  imports Main "HOL-Library.AList"
begin

section \<open>JavaScript values, errors and promises\<close>

text \<open>
  The development embeds \<^verbatim>\<open>lib/query-interface.js\<close>. Dynamically typed results of the
  executor are values of \<open>jsval\<close>; a number is an integer here (row counts, ids, the flag
  of \<^verbatim>\<open>PRAGMA foreign_keys\<close>), and an object is the list of its own properties.
\<close>

datatype jsval =
    JUndefined
  | JNull
  | JBool bool
  | JNum int
  | JStr string
  | JObj "(string \<times> jsval) list"

text \<open>
  What can go wrong: \<open>Error msg\<close> is \<^verbatim>\<open>new Error(msg)\<close>, \<open>TypeError p\<close> is the engine's
  error on reading property \<open>p\<close> of \<^verbatim>\<open>undefined\<close> or \<^verbatim>\<open>null\<close>, \<open>RejectedWith s\<close> is
  \<^verbatim>\<open>Promise.reject(s)\<close> with a plain string, \<open>DatabaseError m\<close> is a failure of the
  executor.
\<close>

datatype error =
    Error string
  | TypeError string
  | RejectedWith string
  | DatabaseError string

text \<open>
  A call either throws before it returns (\<open>Thrown\<close>), or returns a promise that is
  rejected (\<open>Rejected\<close>) or resolved (\<open>Resolved\<close>).
\<close>

datatype 'a outcome = Thrown error | Rejected error | Resolved 'a

text \<open>
  \<^verbatim>\<open>this.sequelize.query(sql, options)\<close>: the executor is a parameter. Its answer may
  depend on everything sent before, so it reads the trace of statements sent so far; the
  call appends the statement to the trace.
\<close>

type_synonym trace = "string list"

type_synonym 'r executor = "trace \<Rightarrow> string \<Rightarrow> error + 'r"

definition query :: "'r executor \<Rightarrow> string \<Rightarrow> trace \<Rightarrow> (error + 'r) \<times> trace" where
  "query ex sql tr = (ex tr sql, tr @ [sql])"

fun settle :: "(error + 'r) \<times> trace \<Rightarrow> 'r outcome \<times> trace" where
  "settle (Inl e, tr) = (Rejected e, tr)"
| "settle (Inr r, tr) = (Resolved r, tr)"

text \<open>
  Property read \<^verbatim>\<open>v.k\<close>: a \<open>TypeError\<close> on \<^verbatim>\<open>undefined\<close> and \<^verbatim>\<open>null\<close>, the own
  property of an object, and \<^verbatim>\<open>undefined\<close> where there is none. Properties that come
  from a prototype (the length of a string, say) are not modelled.
\<close>

fun js_get :: "jsval \<Rightarrow> string \<Rightarrow> error + jsval" where
  "js_get JUndefined k = Inl (TypeError k)"
| "js_get JNull k = Inl (TypeError k)"
| "js_get (JObj kvs) k = Inr (case map_of kvs k of None \<Rightarrow> JUndefined | Some v \<Rightarrow> v)"
| "js_get (JBool b) k = Inr JUndefined"
| "js_get (JNum n) k = Inr JUndefined"
| "js_get (JStr s) k = Inr JUndefined"

text \<open>\<^verbatim>\<open>!sql\<close> for the text a generator returns: no text, or the empty text.\<close>

fun falsy_text :: "string option \<Rightarrow> bool" where
  "falsy_text None = True"
| "falsy_text (Some s) = (s = [])"

text \<open>\<^verbatim>\<open>'' + v\<close> for an optional string.\<close>

fun js_string :: "string option \<Rightarrow> string" where
  "js_string None = ''undefined''"
| "js_string (Some s) = s"


section \<open>The data of the query interface\<close>

text \<open>A table is named by a string or by an object \<^verbatim>\<open>{ schema, tableName }\<close>.\<close>

datatype table_ref = TName string | TObj "string option" string

text \<open>\<^verbatim>\<open>'' + tableName\<close>: an object prints as \<^verbatim>\<open>[object Object]\<close>.\<close>

fun table_string :: "table_ref \<Rightarrow> string" where
  "table_string (TName n) = n"
| "table_string (TObj s n) = ''[object Object]''"

text \<open>The options object, with the properties the embedded operations read.\<close>

record options =
  schema :: "string option"
  schemaDelimiter :: "string option"
  skip :: "string list option"
  cascade :: bool
  force :: bool
  opt_truncate :: bool

text \<open>
  A \<^verbatim>\<open>Transaction\<close> object, with the fields the query interface reads and writes.
  \<open>parent\<close> is set for a savepoint. The first argument of each transaction operation is
  \<open>None\<close> when the caller passed nothing or something that is no \<^verbatim>\<open>Transaction\<close>.
\<close>

datatype transaction =
  Transaction (parent: "transaction option") (name: "string option") (finished: "string option")

text \<open>One column of a table description, and the description \<^verbatim>\<open>describeTable\<close> resolves with.\<close>

record column =
  col_type :: string
  col_allowNull :: bool
  col_defaultValue :: jsval

type_synonym description = "(string \<times> column) list"

text \<open>
  The entry \<^verbatim>\<open>renameColumn\<close> builds for the new column. A type or a nullability that is
  \<open>None\<close> is \<^verbatim>\<open>undefined\<close>; \<open>attr_defaultValue = None\<close> is the property deleted from the
  object, and \<open>Some JUndefined\<close> the property that is there and \<^verbatim>\<open>undefined\<close>.
\<close>

record attribute_definition =
  attribute :: string
  attr_type :: "string option"
  attr_allowNull :: "bool option"
  attr_defaultValue :: "jsval option"

text \<open>
  The result of a \<^verbatim>\<open>FOREIGNKEYS\<close> query: an array of rows, or one row, or nothing. Of a
  row only \<^verbatim>\<open>constraint_name\<close> is read.
\<close>

record foreign_key_row =
  constraint_name :: "string option"

datatype foreign_keys_result = FkRows "foreign_key_row list" | FkRow "foreign_key_row option"

text \<open>
  A model: \<^verbatim>\<open>uniqueKeys\<close> (an object of named keys), \<^verbatim>\<open>_indexes\<close>, whose fields are
  strings or plain objects with an \<^verbatim>\<open>attribute\<close> property, \<^verbatim>\<open>primaryKeyField\<close>, and
  \<^verbatim>\<open>rawAttributes\<close>, of which only the test \<^verbatim>\<open>type instanceof DataTypes.ENUM\<close> is kept.
\<close>

datatype index_field = FieldName string | FieldObject string

record index_spec =
  idx_unique :: bool
  idx_fields :: "index_field list"

record model =
  uniqueKeys :: "(string \<times> string list) list"
  indexes :: "index_spec list"
  primaryKeyField :: string
  rawAttributes :: "(string \<times> bool) list"

text \<open>A where clause: an object of field values, or \<^verbatim>\<open>{ [Op.or]: [...] }\<close>.\<close>

datatype where_clause = WhereFields "(string \<times> jsval) list" | WhereOr "where_clause list"

text \<open>The options of \<^verbatim>\<open>addConstraint\<close>.\<close>

record constraint_options =
  con_type :: "string option"
  con_fields :: "string list option"
  con_name :: "string option"

text \<open>
  The two call shapes of \<^verbatim>\<open>addConstraint\<close>:
  \<^verbatim>\<open>(tableName, attributes, options, rawTablename)\<close> with an array of attributes, and
  \<^verbatim>\<open>(tableName, options, rawTablename)\<close>. An argument left out is \<open>None\<close>.
\<close>

datatype constraint_args =
    WithAttributes "string list" "constraint_options option" "table_ref option"
  | WithoutAttributes "constraint_options option" "table_ref option"

text \<open>
  Objects that a callee may mutate live in a store; a reference is an index into it.
\<close>

type_synonym ref = nat

type_synonym store = "where_clause list"

text \<open>
  The collaborators, as parameters: the dialect's SQL generator, the \<^verbatim>\<open>sequelize\<close>
  instance (dialect name, executor by query type, model manager), the sqlite query
  interface and \<^verbatim>\<open>Utils\<close>.
\<close>

record query_generator =
  showTablesQuery :: string
  dropTableQuery :: "table_ref \<Rightarrow> options \<Rightarrow> string"
  pgEnumDrop :: "string \<Rightarrow> string \<Rightarrow> string"
  describeTableQuery :: "string \<Rightarrow> string option \<Rightarrow> string option \<Rightarrow> string"
  attributesToSQL :: "(string \<times> attribute_definition) list \<Rightarrow> (string \<times> string) list"
  renameColumnQuery :: "table_ref \<Rightarrow> string \<Rightarrow> (string \<times> string) list \<Rightarrow> string"
  getForeignKeysQuery :: "table_ref \<Rightarrow> string"
  dropForeignKeyQuery :: "table_ref \<Rightarrow> string \<Rightarrow> string"
  addConstraintQuery :: "table_ref \<Rightarrow> constraint_options \<Rightarrow> table_ref \<Rightarrow> string"
  upsertQuery ::
    "table_ref \<Rightarrow> (string \<times> jsval) list \<Rightarrow> (string \<times> jsval) list \<Rightarrow> where_clause \<Rightarrow>
     model \<Rightarrow> options \<Rightarrow> string"
  truncateTableQuery :: "table_ref \<Rightarrow> options \<Rightarrow> string"
  deleteQuery :: "table_ref \<Rightarrow> ref \<Rightarrow> options \<Rightarrow> model option \<Rightarrow> store \<Rightarrow> string \<times> store"
  setAutocommitQuery :: "bool \<Rightarrow> transaction option \<Rightarrow> string option"
  setIsolationLevelQuery :: "string option \<Rightarrow> transaction option \<Rightarrow> string option"
  commitTransactionQuery :: "transaction \<Rightarrow> string"
  rollbackTransactionQuery :: "transaction \<Rightarrow> string"

record sequelize =
  dialect :: string
  run :: "jsval executor"
  run_showtables :: "table_ref list list executor"
  run_describe :: "description executor"
  run_foreignkeys :: "foreign_keys_result executor"
  getModel :: "table_ref \<Rightarrow> model option"

record sqlite_query_interface =
  sqlite_renameColumn :: "table_ref \<Rightarrow> string \<Rightarrow> string \<Rightarrow> trace \<Rightarrow> (error + jsval) \<times> trace"
  sqlite_addConstraint ::
    "table_ref \<Rightarrow> constraint_options \<Rightarrow> table_ref \<Rightarrow> trace \<Rightarrow> jsval outcome \<times> trace"

record utils =
  isWhereEmpty :: "where_clause \<Rightarrow> bool"

record query_interface =
  Sequelize :: sequelize
  QueryGenerator :: query_generator
  SQLiteQueryInterface :: sqlite_query_interface
  Utils :: utils


section \<open>Transaction control\<close>

fun set_finished :: "string \<Rightarrow> transaction \<Rightarrow> transaction" where
  "set_finished f (Transaction p n _) = Transaction p n (Some f)"

fun set_name :: "string option \<Rightarrow> transaction \<Rightarrow> transaction" where
  "set_name n (Transaction p _ f) = Transaction p n f"

text \<open>
  \<^verbatim>\<open>options.transaction = transaction.parent || transaction;
  options.transaction.name = transaction.parent ? transaction.name : undefined\<close>:
  the assignment lands in the parent for a savepoint, in the handle itself for a root.
\<close>

fun assign_transaction_name :: "transaction \<Rightarrow> transaction" where
  "assign_transaction_name (Transaction None n f) = Transaction None None f"
| "assign_transaction_name (Transaction (Some p) n f) = Transaction (Some (set_name n p)) n f"

definition setAutocommit ::
  "query_interface \<Rightarrow> transaction option \<Rightarrow> bool \<Rightarrow> trace \<Rightarrow> jsval outcome \<times> trace" where
  "setAutocommit this transaction val tr =
     (case transaction of
        None \<Rightarrow>
          (Thrown (Error ''Unable to set autocommit for a transaction without transaction object!''), tr)
      | Some t \<Rightarrow>
          if parent t \<noteq> None then (Resolved JUndefined, tr)
          else
            (case setAutocommitQuery (QueryGenerator this) val (parent t) of
               None \<Rightarrow> (Resolved JUndefined, tr)
             | Some sql \<Rightarrow>
                 if falsy_text (Some sql) then (Resolved JUndefined, tr)
                 else settle (query (run (Sequelize this)) sql tr)))"

text \<open>
  The isolation level is an optional string; \<^verbatim>\<open>!value\<close> holds for a missing level and
  for the empty string. The generator receives \<^verbatim>\<open>value\<close> as the caller gave it.
\<close>

definition setIsolationLevel ::
  "query_interface \<Rightarrow> transaction option \<Rightarrow> string option \<Rightarrow> trace \<Rightarrow> jsval outcome \<times> trace" where
  "setIsolationLevel this transaction val tr =
     (case transaction of
        None \<Rightarrow>
          (Thrown (Error ''Unable to set isolation level for a transaction without transaction object!''), tr)
      | Some t \<Rightarrow>
          if parent t \<noteq> None \<or> falsy_text val then (Resolved JUndefined, tr)
          else
            (case setIsolationLevelQuery (QueryGenerator this) val (parent t) of
               None \<Rightarrow> (Resolved JUndefined, tr)
             | Some sql \<Rightarrow>
                 if falsy_text (Some sql) then (Resolved JUndefined, tr)
                 else settle (query (run (Sequelize this)) sql tr)))"

text \<open>
  \<open>commitTransaction\<close> and \<open>rollbackTransaction\<close> also return the handle as the call
  leaves it: \<^verbatim>\<open>transaction.finished\<close> is assigned after the statement has been handed
  to the executor and before the promise is returned.
\<close>

definition commitTransaction ::
  "query_interface \<Rightarrow> transaction option \<Rightarrow> trace \<Rightarrow>
   jsval outcome \<times> transaction option \<times> trace" where
  "commitTransaction this transaction tr =
     (case transaction of
        None \<Rightarrow>
          (Thrown (Error ''Unable to commit a transaction without transaction object!''), None, tr)
      | Some t \<Rightarrow>
          if parent t \<noteq> None then (Resolved JUndefined, Some t, tr)
          else
            (let sql = commitTransactionQuery (QueryGenerator this) t;
                 promise = settle (query (run (Sequelize this)) sql tr);
                 t' = set_finished ''commit'' t
             in (fst promise, Some t', snd promise)))"

definition rollbackTransaction ::
  "query_interface \<Rightarrow> transaction option \<Rightarrow> trace \<Rightarrow>
   jsval outcome \<times> transaction option \<times> trace" where
  "rollbackTransaction this transaction tr =
     (case transaction of
        None \<Rightarrow>
          (Thrown (Error ''Unable to rollback a transaction without transaction object!''), None, tr)
      | Some t0 \<Rightarrow>
          (let t = assign_transaction_name t0;
               sql = rollbackTransactionQuery (QueryGenerator this) t;
               promise = settle (query (run (Sequelize this)) sql tr);
               t' = set_finished ''rollback'' t
           in (fst promise, Some t', snd promise)))"


section \<open>Schema introspection\<close>

text \<open>\<^verbatim>\<open>x || null\<close> for an optional string.\<close>

fun or_null :: "string option \<Rightarrow> string option" where
  "or_null None = None"
| "or_null (Some s) = (if s = [] then None else Some s)"

text \<open>
  The second argument of \<^verbatim>\<open>describeTable\<close>: nothing, a schema name, or an options object.
\<close>

datatype describe_arg = ArgAbsent | ArgSchema string | ArgOptions options

text \<open>
  The head of \<^verbatim>\<open>describeTable\<close>: schema, delimiter and table name as resolved from the
  arguments, and the statement the generator makes of them.
\<close>

definition describe_target :: "table_ref \<Rightarrow> string" where
  "describe_target tableName0 = (case tableName0 of TName n \<Rightarrow> n | TObj s n \<Rightarrow> n)"

definition describe_statement :: "query_interface \<Rightarrow> table_ref \<Rightarrow> describe_arg \<Rightarrow> string" where
  "describe_statement this tableName0 opts =
     (let schema0 = (case opts of
                       ArgAbsent \<Rightarrow> None
                     | ArgSchema s \<Rightarrow> Some s
                     | ArgOptions ob \<Rightarrow> or_null (schema ob));
          delimiter = (case opts of
                         ArgAbsent \<Rightarrow> None
                       | ArgSchema s \<Rightarrow> None
                       | ArgOptions ob \<Rightarrow> or_null (schemaDelimiter ob));
          schema1 = (case tableName0 of TName n \<Rightarrow> schema0 | TObj s n \<Rightarrow> s)
      in describeTableQuery (QueryGenerator this) (describe_target tableName0) schema1 delimiter)"

definition describeTable ::
  "query_interface \<Rightarrow> table_ref \<Rightarrow> describe_arg \<Rightarrow> trace \<Rightarrow> description outcome \<times> trace" where
  "describeTable this tableName0 opts tr =
     (case query (run_describe (Sequelize this)) (describe_statement this tableName0 opts) tr of
        (Inl e, tr') \<Rightarrow> (Rejected e, tr')
      | (Inr data, tr') \<Rightarrow>
          if data = [] then
            (Rejected (RejectedWith (''No description found for \"'' @ describe_target tableName0 @
               ''\" table. Check the table name and schema; remember, they _are_ case sensitive.'')),
             tr')
          else (Resolved data, tr'))"

text \<open>
  \<^verbatim>\<open>data[attrNameBefore]\<close> on a description. The description is a plain object, so the
  read finds a column of that name, and otherwise what \<^verbatim>\<open>Object.prototype\<close> has under
  that name: a function or an object, which is truthy and has no \<^verbatim>\<open>type\<close>, \<^verbatim>\<open>allowNull\<close>
  or \<^verbatim>\<open>defaultValue\<close>. For any other name the read gives \<^verbatim>\<open>undefined\<close>.
\<close>

definition object_prototype_names :: "string list" where
  "object_prototype_names =
     [''constructor'', ''__defineGetter__'', ''__defineSetter__'', ''hasOwnProperty'',
      ''__lookupGetter__'', ''__lookupSetter__'', ''isPrototypeOf'', ''propertyIsEnumerable'',
      ''toString'', ''valueOf'', ''__proto__'', ''toLocaleString'']"

datatype description_value = DColumn column | DInherited | DUndefined

definition description_get :: "description \<Rightarrow> string \<Rightarrow> description_value" where
  "description_get data k =
     (case map_of data k of
        Some col \<Rightarrow> DColumn col
      | None \<Rightarrow> if k \<in> set object_prototype_names then DInherited else DUndefined)"

text \<open>
  The object \<^verbatim>\<open>_options\<close> that \<^verbatim>\<open>renameColumn\<close> builds from \<^verbatim>\<open>data[attrNameBefore]\<close>:
  from a column, or (\<open>None\<close>) from a value that has none of the three fields, so that
  each of them reads \<^verbatim>\<open>undefined\<close>.
\<close>

definition renameColumn_options ::
  "string \<Rightarrow> column option \<Rightarrow> (string \<times> attribute_definition) list" where
  "renameColumn_options attrNameAfter data =
     (let entry = \<lparr> attribute = attrNameAfter,
                    attr_type = map_option col_type data,
                    attr_allowNull = map_option col_allowNull data,
                    attr_defaultValue =
                      Some (case data of None \<Rightarrow> JUndefined | Some col \<Rightarrow> col_defaultValue col) \<rparr>
      in [(attrNameAfter,
           if (case data of
                 None \<Rightarrow> False
               | Some col \<Rightarrow> col_defaultValue col = JNull \<and> \<not> col_allowNull col)
           then entry \<lparr> attr_defaultValue := None \<rparr>
           else entry)])"

text \<open>
  The end of the callback of \<^verbatim>\<open>renameColumn\<close>, once \<^verbatim>\<open>_options\<close> is built: sqlite hands
  the rename to the sqlite query interface, which is given the table and the two names;
  every other dialect generates the statement from \<^verbatim>\<open>_options\<close> and sends it.
\<close>

definition renameColumn_dispatch ::
  "query_interface \<Rightarrow> table_ref \<Rightarrow> string \<Rightarrow> string \<Rightarrow> (string \<times> attribute_definition) list \<Rightarrow>
   trace \<Rightarrow> jsval outcome \<times> trace" where
  "renameColumn_dispatch this tableName attrNameBefore attrNameAfter opts' tr' =
     (if dialect (Sequelize this) = ''sqlite'' then
        settle (sqlite_renameColumn (SQLiteQueryInterface this)
                  tableName attrNameBefore attrNameAfter tr')
      else
        settle (query (run (Sequelize this))
                  (renameColumnQuery (QueryGenerator this) tableName attrNameBefore
                     (attributesToSQL (QueryGenerator this) opts'))
                  tr'))"

definition renameColumn ::
  "query_interface \<Rightarrow> table_ref \<Rightarrow> string \<Rightarrow> string \<Rightarrow> options \<Rightarrow> trace \<Rightarrow>
   jsval outcome \<times> trace" where
  "renameColumn this tableName attrNameBefore attrNameAfter opts tr =
     (case describeTable this tableName (ArgOptions opts) tr of
        (Thrown e, tr') \<Rightarrow> (Thrown e, tr')
      | (Rejected e, tr') \<Rightarrow> (Rejected e, tr')
      | (Resolved data, tr') \<Rightarrow>
          (case description_get data attrNameBefore of
             DUndefined \<Rightarrow>
               (Rejected (Error (''Table '' @ table_string tableName @
                  '' doesn't have the column '' @ attrNameBefore)), tr')
           | DColumn col \<Rightarrow>
               renameColumn_dispatch this tableName attrNameBefore attrNameAfter
                 (renameColumn_options attrNameAfter (Some col)) tr'
           | DInherited \<Rightarrow>
               renameColumn_dispatch this tableName attrNameBefore attrNameAfter
                 (renameColumn_options attrNameAfter None) tr'))"

text \<open>
  Several statements handed to the executor one after the other before any answer is
  awaited (\<^verbatim>\<open>Promise.map\<close>, or promises pushed in a loop), and \<^verbatim>\<open>Promise.all\<close> over the
  answers; of several failures the model reports the first in the order of sending.
\<close>

fun query_all :: "'r executor \<Rightarrow> string list \<Rightarrow> trace \<Rightarrow> (error + 'r) list \<times> trace" where
  "query_all ex [] tr = ([], tr)"
| "query_all ex (sql # sqls) tr =
     (case query ex sql tr of
        (r, tr') \<Rightarrow> (case query_all ex sqls tr' of (rs, tr'') \<Rightarrow> (r # rs, tr'')))"

fun promise_all :: "(error + 'r) list \<Rightarrow> error + 'r list" where
  "promise_all [] = Inr []"
| "promise_all (Inl e # rs) = Inl e"
| "promise_all (Inr r # rs) = (case promise_all rs of Inl e \<Rightarrow> Inl e | Inr xs \<Rightarrow> Inr (r # xs))"

text \<open>The key of a table in the result: \<^verbatim>\<open>tableName.schema + '.' + tableName.tableName\<close>.\<close>

fun table_key :: "table_ref \<Rightarrow> string" where
  "table_key (TName n) = n"
| "table_key (TObj s n) = js_string s @ ''.'' @ n"

text \<open>
  \<^verbatim>\<open>_.isArray(r) ? r.map(r => r.constraint_name) : [r && r.constraint_name]\<close>
\<close>

fun constraint_names :: "foreign_keys_result \<Rightarrow> string option list" where
  "constraint_names (FkRows rows) = map constraint_name rows"
| "constraint_names (FkRow None) = [None]"
| "constraint_names (FkRow (Some r)) = [constraint_name r]"

text \<open>\<^verbatim>\<open>.filter(_.identity)\<close>: the names that are present and not empty.\<close>

fun truthy_names :: "string option list \<Rightarrow> string list" where
  "truthy_names [] = []"
| "truthy_names (None # xs) = truthy_names xs"
| "truthy_names (Some s # xs) = (if s = [] then truthy_names xs else s # truthy_names xs)"

fun collect_foreign_keys ::
  "table_ref list \<Rightarrow> foreign_keys_result list \<Rightarrow> (string \<rightharpoonup> string list) \<Rightarrow>
   (string \<rightharpoonup> string list)" where
  "collect_foreign_keys (t # ts) (r # rs) result =
     collect_foreign_keys ts rs (result(table_key t \<mapsto> truthy_names (constraint_names r)))"
| "collect_foreign_keys (t # ts) [] result =
     collect_foreign_keys ts [] (result(table_key t \<mapsto> []))"
| "collect_foreign_keys [] rs result = result"

definition getForeignKeysForTables ::
  "query_interface \<Rightarrow> table_ref list \<Rightarrow> trace \<Rightarrow> (string \<rightharpoonup> string list) outcome \<times> trace" where
  "getForeignKeysForTables this tableNames tr =
     (if length tableNames = 0 then (Resolved Map.empty, tr)
      else
        (case query_all (run_foreignkeys (Sequelize this))
                (map (getForeignKeysQuery (QueryGenerator this)) tableNames) tr of
           (answers, tr') \<Rightarrow>
             (case promise_all answers of
                Inl e \<Rightarrow> (Rejected e, tr')
              | Inr results \<Rightarrow> (Resolved (collect_foreign_keys tableNames results Map.empty), tr'))))"


section \<open>Dropping tables\<close>

definition showAllTables :: "query_interface \<Rightarrow> trace \<Rightarrow> table_ref list outcome \<times> trace" where
  "showAllTables this tr =
     (case query (run_showtables (Sequelize this)) (showTablesQuery (QueryGenerator this)) tr of
        (Inl e, tr') \<Rightarrow> (Rejected e, tr')
      | (Inr tableNames, tr') \<Rightarrow> (Resolved (concat tableNames), tr'))"

text \<open>The statements that drop the enum types of a postgres table, in \<^verbatim>\<open>dropTable\<close>.\<close>

definition enum_drops :: "query_interface \<Rightarrow> table_ref \<Rightarrow> options \<Rightarrow> string list" where
  "enum_drops this tableName opts =
     (if dialect (Sequelize this) = ''postgres'' then
        (case getModel (Sequelize this) tableName of
           None \<Rightarrow> []
         | Some instanceTable \<Rightarrow>
             (let getTableName =
                    (case schema opts of
                       None \<Rightarrow> []
                     | Some s \<Rightarrow> if s = [] \<or> s = ''public'' then [] else s @ ''_'')
                    @ table_string tableName
              in map (\<lambda>key. pgEnumDrop (QueryGenerator this) getTableName key)
                   (map fst (filter snd (rawAttributes instanceTable)))))
      else [])"

definition dropTable ::
  "query_interface \<Rightarrow> table_ref \<Rightarrow> options \<Rightarrow> trace \<Rightarrow> jsval outcome \<times> trace" where
  "dropTable this tableName opts0 tr =
     (let opts = opts0 \<lparr> cascade := cascade opts0 \<or> force opts0 \<rparr>;
          sql = dropTableQuery (QueryGenerator this) tableName opts
      in case query (run (Sequelize this)) sql tr of
           (Inl e, tr') \<Rightarrow> (Rejected e, tr')
         | (Inr r, tr') \<Rightarrow>
             (case query_all (run (Sequelize this)) (enum_drops this tableName opts) tr' of
                (answers, tr'') \<Rightarrow>
                  (case promise_all answers of
                     Inl e \<Rightarrow> (Rejected e, tr'')
                   | Inr xs \<Rightarrow> (Resolved (case xs of [] \<Rightarrow> JUndefined | x # _ \<Rightarrow> x), tr''))))"

text \<open>
  \<^verbatim>\<open>skip.indexOf(tableName.tableName || tableName) === -1\<close>: a table object is looked up
  by its name, unless that name is empty; then the object itself is looked up and not
  found among strings.
\<close>

fun not_skipped :: "string list \<Rightarrow> table_ref \<Rightarrow> bool" where
  "not_skipped sk (TName n) = (n \<notin> set sk)"
| "not_skipped sk (TObj s n) = (n = [] \<or> n \<notin> set sk)"

text \<open>
  The inner function \<^verbatim>\<open>dropAllTables = tableNames => Promise.each(...)\<close>: one table after
  the other, stopping at the first rejection. The value a resolved promise carries is not
  kept.
\<close>

fun drop_each ::
  "query_interface \<Rightarrow> options \<Rightarrow> table_ref list \<Rightarrow> trace \<Rightarrow> unit outcome \<times> trace" where
  "drop_each this opts [] tr = (Resolved (), tr)"
| "drop_each this opts (tableName # rest) tr =
     (if not_skipped (case skip opts of None \<Rightarrow> [] | Some sk \<Rightarrow> sk) tableName then
        (case dropTable this tableName (opts \<lparr> cascade := True \<rparr>) tr of
           (Resolved r, tr') \<Rightarrow> drop_each this opts rest tr'
         | (Rejected e, tr') \<Rightarrow> (Rejected e, tr')
         | (Thrown e, tr') \<Rightarrow> (Rejected e, tr'))
      else drop_each this opts rest tr)"

text \<open>
  The loop that sends one \<^verbatim>\<open>dropForeignKeyQuery\<close> per foreign key of every table;
  \<^verbatim>\<open>foreignKeys[normalizedTableName].forEach\<close> on a missing entry is a \<open>TypeError\<close>.
\<close>

fun drop_foreign_keys ::
  "query_interface \<Rightarrow> (string \<rightharpoonup> string list) \<Rightarrow> table_ref list \<Rightarrow> trace \<Rightarrow>
   (error + (error + jsval) list) \<times> trace" where
  "drop_foreign_keys this foreignKeys [] tr = (Inr [], tr)"
| "drop_foreign_keys this foreignKeys (tableName # rest) tr =
     (case foreignKeys (table_key tableName) of
        None \<Rightarrow> (Inl (TypeError ''forEach''), tr)
      | Some names \<Rightarrow>
          (case query_all (run (Sequelize this))
                  (map (dropForeignKeyQuery (QueryGenerator this) tableName) names) tr of
             (answers, tr') \<Rightarrow>
               (case drop_foreign_keys this foreignKeys rest tr' of
                  (Inl e, tr'') \<Rightarrow> (Inl e, tr'')
                | (Inr more_answers, tr'') \<Rightarrow> (Inr (answers @ more_answers), tr''))))"

definition dropAllTables :: "query_interface \<Rightarrow> options \<Rightarrow> trace \<Rightarrow> unit outcome \<times> trace" where
  "dropAllTables this opts tr =
     (case showAllTables this tr of
        (Thrown e, tr1) \<Rightarrow> (Thrown e, tr1)
      | (Rejected e, tr1) \<Rightarrow> (Rejected e, tr1)
      | (Resolved tableNames, tr1) \<Rightarrow>
          if dialect (Sequelize this) = ''sqlite'' then
            (case query (run (Sequelize this)) ''PRAGMA foreign_keys;'' tr1 of
               (Inl e, tr2) \<Rightarrow> (Rejected e, tr2)
             | (Inr result, tr2) \<Rightarrow>
                 (case js_get result ''foreign_keys'' of
                    Inl e \<Rightarrow> (Rejected e, tr2)
                  | Inr flag \<Rightarrow>
                      if flag = JNum 1 then
                        (case query (run (Sequelize this)) ''PRAGMA foreign_keys = OFF'' tr2 of
                           (Inl e, tr3) \<Rightarrow> (Rejected e, tr3)
                         | (Inr r, tr3) \<Rightarrow>
                             (case drop_each this opts tableNames tr3 of
                                (Thrown e, tr4) \<Rightarrow> (Rejected e, tr4)
                              | (Rejected e, tr4) \<Rightarrow> (Rejected e, tr4)
                              | (Resolved u, tr4) \<Rightarrow>
                                  (case query (run (Sequelize this)) ''PRAGMA foreign_keys = ON'' tr4 of
                                     (Inl e, tr5) \<Rightarrow> (Rejected e, tr5)
                                   | (Inr r', tr5) \<Rightarrow> (Resolved (), tr5))))
                      else drop_each this opts tableNames tr2))
          else
            (case getForeignKeysForTables this tableNames tr1 of
               (Thrown e, tr2) \<Rightarrow> (Rejected e, tr2)
             | (Rejected e, tr2) \<Rightarrow> (Rejected e, tr2)
             | (Resolved foreignKeys, tr2) \<Rightarrow>
                 (case drop_foreign_keys this foreignKeys tableNames tr2 of
                    (Inl e, tr3) \<Rightarrow> (Rejected e, tr3)
                  | (Inr answers, tr3) \<Rightarrow>
                      (case promise_all answers of
                         Inl e \<Rightarrow> (Rejected e, tr3)
                       | Inr xs \<Rightarrow> drop_each this opts tableNames tr3))))"


text \<open>
  What \<^verbatim>\<open>dropAllTables\<close> drops, and with which statement: the tables not skipped, each
  by \<^verbatim>\<open>dropTable\<close> with \<^verbatim>\<open>cascade: true\<close>.
\<close>

definition tables_to_drop :: "options \<Rightarrow> table_ref list \<Rightarrow> table_ref list" where
  "tables_to_drop opts tableNames =
     filter (not_skipped (case skip opts of None \<Rightarrow> [] | Some sk \<Rightarrow> sk)) tableNames"

definition drop_statement :: "query_interface \<Rightarrow> options \<Rightarrow> table_ref \<Rightarrow> string" where
  "drop_statement this opts tableName =
     dropTableQuery (QueryGenerator this) tableName (opts \<lparr> cascade := True \<rparr>)"


section \<open>Constraints\<close>

text \<open>\<^verbatim>\<open>if (!rawTablename) rawTablename = tableName\<close>\<close>

fun raw_table_name :: "table_ref option \<Rightarrow> table_ref \<Rightarrow> table_ref" where
  "raw_table_name None tableName = tableName"
| "raw_table_name (Some (TName n)) tableName = (if n = [] then tableName else TName n)"
| "raw_table_name (Some (TObj s n)) tableName = TObj s n"

text \<open>
  The argument shuffle at the head of \<^verbatim>\<open>addConstraint\<close>: when the second argument is
  no array it is the options object, and the attributes are its \<^verbatim>\<open>fields\<close>.
\<close>

fun constraint_arguments ::
  "constraint_args \<Rightarrow> error + (string list option \<times> constraint_options option \<times> table_ref option)" where
  "constraint_arguments (WithAttributes attributes opts rawTablename) =
     Inr (Some attributes, opts, rawTablename)"
| "constraint_arguments (WithoutAttributes None rawTablename) = Inl (TypeError ''fields'')"
| "constraint_arguments (WithoutAttributes (Some ob) rawTablename) =
     Inr (con_fields ob, Some ob, rawTablename)"

text \<open>The options object of a call, in either shape; \<open>None\<close> when it was left out.\<close>

fun given_options :: "constraint_args \<Rightarrow> constraint_options option" where
  "given_options (WithAttributes attributes opts rawTablename) = opts"
| "given_options (WithoutAttributes opts rawTablename) = opts"

definition addConstraint ::
  "query_interface \<Rightarrow> table_ref \<Rightarrow> constraint_args \<Rightarrow> trace \<Rightarrow> jsval outcome \<times> trace" where
  "addConstraint this tableName args tr =
     (case constraint_arguments args of
        Inl e \<Rightarrow> (Thrown e, tr)
      | Inr (attributes, None, rawTablename) \<Rightarrow> (Thrown (TypeError ''type''), tr)
      | Inr (attributes, Some ob, rawTablename) \<Rightarrow>
          if falsy_text (con_type ob) then
            (Thrown (Error ''Constraint type must be specified through options.type''), tr)
          else
            (let rawTablename' = raw_table_name rawTablename tableName;
                 opts = ob \<lparr> con_fields := attributes \<rparr>
             in if dialect (Sequelize this) = ''sqlite'' then
                  sqlite_addConstraint (SQLiteQueryInterface this) tableName opts rawTablename' tr
                else
                  settle (query (run (Sequelize this))
                            (addConstraintQuery (QueryGenerator this) tableName opts rawTablename')
                            tr)))"


section \<open>Upsert\<close>

text \<open>
  \<^verbatim>\<open>_.intersection(xs, ys)\<close>: the values of \<open>xs\<close> that occur in \<open>ys\<close>, each once, in the
  order of their first occurrence in \<open>xs\<close>.
\<close>

fun uniq_from :: "'a list \<Rightarrow> 'a list \<Rightarrow> 'a list" where
  "uniq_from seen [] = []"
| "uniq_from seen (x # xs) =
     (if x \<in> set seen then uniq_from seen xs else x # uniq_from (x # seen) xs)"

definition intersection :: "'a list \<Rightarrow> 'a list \<Rightarrow> 'a list" where
  "intersection xs ys = filter (\<lambda>x. x \<in> set ys) (uniq_from [] xs)"

text \<open>\<^verbatim>\<open>insertValues[field]\<close>\<close>

definition property :: "(string \<times> jsval) list \<Rightarrow> string \<Rightarrow> jsval" where
  "property ob k = (case map_of ob k of None \<Rightarrow> JUndefined | Some v \<Rightarrow> v)"

fun sanitize_field :: "index_field \<Rightarrow> string" where
  "sanitize_field (FieldName s) = s"
| "sanitize_field (FieldObject a) = a"

text \<open>The unique keys and the unique indexes of the model, combined into one list.\<close>

definition upsert_indexes :: "model \<Rightarrow> string list list" where
  "upsert_indexes m =
     map snd (uniqueKeys m)
     @ map (\<lambda>v. map sanitize_field (idx_fields v)) (filter idx_unique (indexes m))"

text \<open>\<^verbatim>\<open>for (const field of index) where[field] = insertValues[field]\<close>\<close>

fun index_where ::
  "(string \<times> jsval) list \<Rightarrow> string list \<Rightarrow> (string \<times> jsval) list \<Rightarrow> (string \<times> jsval) list" where
  "index_where insertValues [] w = w"
| "index_where insertValues (field # rest) w =
     index_where insertValues rest (AList.update field (property insertValues field) w)"

text \<open>\<^verbatim>\<open>for (const index of indexes)\<close>, pushing onto \<^verbatim>\<open>wheres\<close>.\<close>

fun index_wheres ::
  "(string \<times> jsval) list \<Rightarrow> string list list \<Rightarrow> where_clause list \<Rightarrow> where_clause list" where
  "index_wheres insertValues [] wheres = wheres"
| "index_wheres insertValues (index # rest) wheres =
     (if length (intersection (map fst insertValues) index) = length index
      then index_wheres insertValues rest
             (wheres @ [WhereFields (index_where insertValues index [])])
      else index_wheres insertValues rest wheres)"

definition upsert_where ::
  "query_interface \<Rightarrow> (string \<times> jsval) list \<Rightarrow> where_clause \<Rightarrow> model \<Rightarrow> where_clause" where
  "upsert_where this insertValues wh m =
     WhereOr (index_wheres insertValues (upsert_indexes m)
                (if \<not> isWhereEmpty (Utils this) wh then [wh] else []))"

text \<open>The \<^verbatim>\<open>switch\<close> on the dialect that turns the executor's result into the returned pair.\<close>

definition upsert_result :: "string \<Rightarrow> model \<Rightarrow> jsval \<Rightarrow> error + jsval \<times> jsval" where
  "upsert_result dialect_name m result =
     (if dialect_name = ''postgres'' then
        (case js_get result ''created'' of
           Inl e \<Rightarrow> Inl e
         | Inr created \<Rightarrow>
             (case js_get result ''primary_key'' of
                Inl e \<Rightarrow> Inl e
              | Inr key \<Rightarrow> Inr (created, key)))
      else if dialect_name = ''mssql'' then
        (case js_get result ''$action'' of
           Inl e \<Rightarrow> Inl e
         | Inr action \<Rightarrow>
             (case js_get result (primaryKeyField m) of
                Inl e \<Rightarrow> Inl e
              | Inr key \<Rightarrow> Inr (JBool (action = JStr ''INSERT''), key)))
      else if dialect_name = ''mysql'' then Inr (JBool (result = JNum 1), JUndefined)
      else Inr (result, JUndefined))"

definition upsert_statement ::
  "query_interface \<Rightarrow> table_ref \<Rightarrow> (string \<times> jsval) list \<Rightarrow> (string \<times> jsval) list \<Rightarrow>
   where_clause \<Rightarrow> model \<Rightarrow> options \<Rightarrow> string" where
  "upsert_statement this tableName insertValues updateValues wh m opts =
     upsertQuery (QueryGenerator this) tableName insertValues updateValues
       (upsert_where this insertValues wh m) m opts"

definition upsert ::
  "query_interface \<Rightarrow> table_ref \<Rightarrow> (string \<times> jsval) list \<Rightarrow> (string \<times> jsval) list \<Rightarrow>
   where_clause \<Rightarrow> model \<Rightarrow> options \<Rightarrow> trace \<Rightarrow> (jsval \<times> jsval) outcome \<times> trace" where
  "upsert this tableName insertValues updateValues wh m opts tr =
     (case query (run (Sequelize this))
             (upsert_statement this tableName insertValues updateValues wh m opts) tr of
        (Inl e, tr') \<Rightarrow> (Rejected e, tr')
      | (Inr result, tr') \<Rightarrow>
          (case upsert_result (dialect (Sequelize this)) m result of
             Inl e \<Rightarrow> (Rejected e, tr')
           | Inr pair \<Rightarrow> (Resolved pair, tr')))"


section \<open>Bulk delete\<close>

text \<open>
  \<^verbatim>\<open>typeof x\<close> for an identifier looked up in the global scope: \<open>None\<close> is an identifier
  that is bound nowhere, for which \<^verbatim>\<open>typeof\<close> gives \<^verbatim>\<open>'undefined'\<close> without raising.
\<close>

fun js_typeof :: "jsval option \<Rightarrow> string" where
  "js_typeof None = ''undefined''"
| "js_typeof (Some JUndefined) = ''undefined''"
| "js_typeof (Some JNull) = ''object''"
| "js_typeof (Some (JBool b)) = ''boolean''"
| "js_typeof (Some (JNum n)) = ''number''"
| "js_typeof (Some (JStr s)) = ''string''"
| "js_typeof (Some (JObj kvs)) = ''object''"

text \<open>
  \<^verbatim>\<open>Utils.cloneDeep\<close> on a reference: a copy of the object at a fresh place of the store.
  A reference outside the store is returned as it is.
\<close>

definition cloneDeep :: "ref \<Rightarrow> store \<Rightarrow> ref \<times> store" where
  "cloneDeep r st = (if r < length st then (length st, st @ [st ! r]) else (r, st))"

text \<open>
  \<^verbatim>\<open>bulkDelete\<close>. The where clause is passed by reference. The test before the clone
  reads \<^verbatim>\<open>identifier\<close>, which is neither a parameter nor a local nor an import of the
  module, so it is looked up among the globals.
\<close>

definition bulkDelete ::
  "query_interface \<Rightarrow> (string \<rightharpoonup> jsval) \<Rightarrow> table_ref \<Rightarrow> ref \<Rightarrow> options \<Rightarrow> model option \<Rightarrow>
   store \<Rightarrow> trace \<Rightarrow> jsval outcome \<times> store \<times> trace" where
  "bulkDelete this globals tableName wh opts m st tr =
     (if opt_truncate opts then
        (case settle (query (run (Sequelize this))
                        (truncateTableQuery (QueryGenerator this) tableName opts) tr) of
           (out, tr') \<Rightarrow> (out, st, tr'))
      else
        (case (if js_typeof (globals ''identifier'') = ''object'' then cloneDeep wh st
               else (wh, st)) of
           (wh', st') \<Rightarrow>
             (case deleteQuery (QueryGenerator this) tableName wh' opts m st' of
                (sql, st'') \<Rightarrow>
                  (case settle (query (run (Sequelize this)) sql tr) of
                     (out, tr') \<Rightarrow> (out, st'', tr')))))"


section \<open>Example collaborators\<close>

text \<open>
  A small generator, executor and model on which the operations can be run. The isolation
  level statement is the one of the mysql generator, which prints whatever level it is
  given; \<open>example_deleteQuery\<close> normalises the where clause it is given in place.
\<close>

definition example_deleteQuery ::
  "table_ref \<Rightarrow> ref \<Rightarrow> options \<Rightarrow> model option \<Rightarrow> store \<Rightarrow> string \<times> store" where
  "example_deleteQuery t w ob m st =
     (''DELETE FROM '' @ table_key t, st[w := WhereOr [st ! w]])"

definition example_generator :: query_generator where
  "example_generator =
     \<lparr> showTablesQuery = ''SHOW TABLES;'',
       dropTableQuery = (\<lambda>t ob. ''DROP TABLE '' @ table_key t),
       pgEnumDrop = (\<lambda>t k. ''DROP TYPE enum_'' @ t @ ''_'' @ k),
       describeTableQuery = (\<lambda>t s d. ''DESCRIBE '' @ t),
       attributesToSQL =
         (\<lambda>attrs. map (\<lambda>(k, d). (k, js_string (attr_type d)
                      @ (if attr_allowNull d = Some True then [] else '' NOT NULL'')
                      @ (case attr_defaultValue d of
                           None \<Rightarrow> []
                         | Some (JStr v) \<Rightarrow> '' DEFAULT '' @ v
                         | Some v \<Rightarrow> '' DEFAULT NULL''))) attrs),
       renameColumnQuery =
         (\<lambda>t before attrs. ''ALTER TABLE '' @ table_key t @ '' CHANGE '' @ before @ '' ''
                           @ concat (map (\<lambda>(k, d). k @ '' '' @ d) attrs)),
       getForeignKeysQuery = (\<lambda>t. ''FOREIGN KEYS OF '' @ table_key t),
       dropForeignKeyQuery = (\<lambda>t k. ''ALTER TABLE '' @ table_key t @ '' DROP FOREIGN KEY '' @ k),
       addConstraintQuery = (\<lambda>t ob r. ''ALTER TABLE '' @ table_key t @ '' ADD CONSTRAINT''),
       upsertQuery = (\<lambda>t iv uv w m ob. ''UPSERT '' @ table_key t),
       truncateTableQuery = (\<lambda>t ob. ''TRUNCATE '' @ table_key t),
       deleteQuery = example_deleteQuery,
       setAutocommitQuery =
         (\<lambda>v p. if p \<noteq> None then None
                else Some (''SET autocommit = '' @ (if v then ''1'' else ''0'') @ '';'')),
       setIsolationLevelQuery =
         (\<lambda>v p. if p \<noteq> None then None
                else Some (''SET SESSION TRANSACTION ISOLATION LEVEL '' @ js_string v @ '';'')),
       commitTransactionQuery = (\<lambda>t. ''COMMIT;''),
       rollbackTransactionQuery =
         (\<lambda>t. if parent t \<noteq> None then ''ROLLBACK TO SAVEPOINT '' @ js_string (name t) @ '';''
              else ''ROLLBACK;'') \<rparr>"

text \<open>
  An executor that accepts every statement, and one that rejects the statements of a
  given list.
\<close>

definition accepting :: "'r \<Rightarrow> 'r executor" where
  "accepting r tr sql = Inr r"

definition rejecting :: "string list \<Rightarrow> 'r \<Rightarrow> 'r executor" where
  "rejecting bad r tr sql = (if sql \<in> set bad then Inl (DatabaseError sql) else Inr r)"

definition example_sequelize :: "string \<Rightarrow> sequelize" where
  "example_sequelize d =
     \<lparr> dialect = d,
       run = accepting JUndefined,
       run_showtables = accepting [[TName ''a'', TName ''b'']],
       run_describe =
         accepting [(''c'', \<lparr> col_type = ''INTEGER'', col_allowNull = False,
                              col_defaultValue = JNull \<rparr>)],
       run_foreignkeys =
         accepting (FkRows [\<lparr> constraint_name = Some ''fk1'' \<rparr>, \<lparr> constraint_name = None \<rparr>]),
       getModel = (\<lambda>t. None) \<rparr>"

text \<open>
  \<open>example_isWhereEmpty\<close> is true of an object without fields and without operators.
\<close>

fun example_isWhereEmpty :: "where_clause \<Rightarrow> bool" where
  "example_isWhereEmpty (WhereFields kvs) = (kvs = [])"
| "example_isWhereEmpty (WhereOr ws) = False"

definition example_interface :: "string \<Rightarrow> query_interface" where
  "example_interface d =
     \<lparr> Sequelize = example_sequelize d,
       QueryGenerator = example_generator,
       SQLiteQueryInterface =
         \<lparr> sqlite_renameColumn = (\<lambda>t b a tr. (Inr JUndefined, tr @ [''sqlite rename''])),
           sqlite_addConstraint = (\<lambda>t ob r tr. (Resolved JUndefined, tr @ [''sqlite constraint''])) \<rparr>,
       Utils = \<lparr> isWhereEmpty = example_isWhereEmpty \<rparr> \<rparr>"

text \<open>The executor of raw statements replaced in an interface.\<close>

definition with_run :: "jsval executor \<Rightarrow> query_interface \<Rightarrow> query_interface" where
  "with_run ex this = this \<lparr> Sequelize := (Sequelize this) \<lparr> run := ex \<rparr> \<rparr>"


text \<open>
  The sqlite executor of the examples: \<^verbatim>\<open>PRAGMA foreign_keys;\<close> answers that enforcement
  is on, and the statements of the given list are rejected.
\<close>

definition example_sqlite_run :: "string list \<Rightarrow> jsval executor" where
  "example_sqlite_run bad tr sql =
     (if sql \<in> set bad then Inl (DatabaseError sql)
      else if sql = ''PRAGMA foreign_keys;'' then Inr (JObj [(''foreign_keys'', JNum 1)])
      else Inr JUndefined)"

definition example_options :: options where
  "example_options =
     \<lparr> schema = None, schemaDelimiter = None, skip = None, cascade = False, force = False,
       opt_truncate = False \<rparr>"

text \<open>A model \<^verbatim>\<open>Users\<close> with the given unique keys, and primary key \<^verbatim>\<open>id\<close>.\<close>

definition example_model :: "(string \<times> string list) list \<Rightarrow> model" where
  "example_model keys =
     \<lparr> uniqueKeys = keys, indexes = [], primaryKeyField = ''id'', rawAttributes = [] \<rparr>"


section \<open>The upsert where clause as the specification words it\<close>

text \<open>
  The specification's wording of the where clause of an upsert: the caller's predicate
  when it is not empty, and one predicate per unique key or unique index whose fields are
  all among the keys of the insert values. It differs from \<open>upsert_where\<close> only in the
  test that selects the indexes.
\<close>

definition claimed_upsert_where ::
  "query_interface \<Rightarrow> (string \<times> jsval) list \<Rightarrow> where_clause \<Rightarrow> model \<Rightarrow> where_clause" where
  "claimed_upsert_where this insertValues wh m =
     WhereOr ((if \<not> isWhereEmpty (Utils this) wh then [wh] else [])
              @ map (\<lambda>index. WhereFields (index_where insertValues index []))
                  (filter (\<lambda>index. list_all (\<lambda>field. field \<in> set (map fst insertValues)) index)
                     (upsert_indexes m)))"


section \<open>Properties\<close>

lemma settle_query_trace: "snd (settle (query ex sql tr)) = tr @ [sql]"
  by (cases "ex tr sql") (simp_all add: query_def)

lemma settle_query_outcome:
  "fst (settle (query ex sql tr)) = (case ex tr sql of Inl e \<Rightarrow> Rejected e | Inr r \<Rightarrow> Resolved r)"
  by (cases "ex tr sql") (simp_all add: query_def)

subsection \<open>Commit and rollback\<close>

text \<open>
  Claim C1, as amended. On a root handle \<^verbatim>\<open>commitTransaction\<close> sends the commit statement,
  sets \<^verbatim>\<open>finished\<close> to \<^verbatim>\<open>'commit'\<close> and returns the executor's outcome; on a savepoint
  handle it resolves without sending anything and leaves the handle as it is.
  \<^verbatim>\<open>rollbackTransaction\<close> sends the rollback statement and sets \<^verbatim>\<open>finished\<close> to
  \<^verbatim>\<open>'rollback'\<close> on every handle. The mark does not depend on whether the statement
  succeeds or fails.
\<close>

theorem commit_rollback_finished:
  "(parent t = None \<longrightarrow>
      commitTransaction this (Some t) tr =
        (case run (Sequelize this) tr (commitTransactionQuery (QueryGenerator this) t) of
           Inl e \<Rightarrow> Rejected e | Inr r \<Rightarrow> Resolved r,
         Some (set_finished ''commit'' t),
         tr @ [commitTransactionQuery (QueryGenerator this) t]))
   \<and> (parent t \<noteq> None \<longrightarrow>
      commitTransaction this (Some t) tr = (Resolved JUndefined, Some t, tr))
   \<and> (\<exists>out t' sql. rollbackTransaction this (Some t) tr = (out, Some t', tr @ [sql])
        \<and> finished t' = Some ''rollback''
        \<and> out = (case run (Sequelize this) tr sql of Inl e \<Rightarrow> Rejected e | Inr r \<Rightarrow> Resolved r))"
proof (intro conjI impI)
  assume "parent t = None"
  then show "commitTransaction this (Some t) tr =
        (case run (Sequelize this) tr (commitTransactionQuery (QueryGenerator this) t) of
           Inl e \<Rightarrow> Rejected e | Inr r \<Rightarrow> Resolved r,
         Some (set_finished ''commit'' t),
         tr @ [commitTransactionQuery (QueryGenerator this) t])"
    by (simp add: commitTransaction_def Let_def settle_query_trace settle_query_outcome)
next
  assume "parent t \<noteq> None"
  then show "commitTransaction this (Some t) tr = (Resolved JUndefined, Some t, tr)"
    by (simp add: commitTransaction_def)
next
  have fin: "finished (set_finished f u) = Some f" for f u
    by (cases u) simp
  show "\<exists>out t' sql. rollbackTransaction this (Some t) tr = (out, Some t', tr @ [sql])
        \<and> finished t' = Some ''rollback''
        \<and> out = (case run (Sequelize this) tr sql of Inl e \<Rightarrow> Rejected e | Inr r \<Rightarrow> Resolved r)"
    by (simp add: rollbackTransaction_def Let_def settle_query_trace settle_query_outcome fin)
qed

text \<open>
  The theorem at a root handle whose commit statement the executor rejects, and at a
  savepoint handle.
\<close>

theorem commit_rollback_finished_witness:
  "commitTransaction (with_run (rejecting [''COMMIT;''] JUndefined) (example_interface ''mysql''))
     (Some (Transaction None None None)) [] =
     (Rejected (DatabaseError ''COMMIT;''), Some (Transaction None None (Some ''commit'')), [''COMMIT;''])
   \<and> commitTransaction (example_interface ''mysql'')
     (Some (Transaction (Some (Transaction None None None)) (Some ''sp1'') None)) [] =
     (Resolved JUndefined, Some (Transaction (Some (Transaction None None None)) (Some ''sp1'') None), [])"
  using commit_rollback_finished [of "Transaction None None None"
      "with_run (rejecting [''COMMIT;''] JUndefined) (example_interface ''mysql'')" "[]"]
    commit_rollback_finished [of "Transaction (Some (Transaction None None None)) (Some ''sp1'') None"
      "example_interface ''mysql''" "[]"]
  by (simp add: with_run_def example_interface_def example_generator_def example_sequelize_def rejecting_def)

text \<open>
  Claim C1 as stated fails: the commit statement of a root handle is rejected, and the
  handle comes back changed.
\<close>

theorem commit_failure_counterexample:
  "fst (commitTransaction (with_run (rejecting [''COMMIT;''] JUndefined) (example_interface ''mysql''))
          (Some (Transaction None None None)) []) = Rejected (DatabaseError ''COMMIT;'')
   \<and> fst (snd (commitTransaction (with_run (rejecting [''COMMIT;''] JUndefined) (example_interface ''mysql''))
          (Some (Transaction None None None)) [])) \<noteq> Some (Transaction None None None)"
  by (simp add: commitTransaction_def with_run_def example_interface_def example_generator_def
        example_sequelize_def rejecting_def query_def Let_def)

subsection \<open>Autocommit and isolation level\<close>

text \<open>
  Claim C5, as amended. On a savepoint handle \<^verbatim>\<open>setAutocommit\<close> and
  \<^verbatim>\<open>setIsolationLevel\<close> resolve without sending a statement. On a root handle
  \<^verbatim>\<open>setAutocommit\<close> sends the generator's statement when there is one, and
  \<^verbatim>\<open>setIsolationLevel\<close> does so when, in addition, an isolation level is given; without
  a level it resolves without sending anything.
\<close>

theorem savepoint_and_root_statements:
  "(parent t \<noteq> None \<longrightarrow>
      setAutocommit this (Some t) v tr = (Resolved JUndefined, tr)
      \<and> setIsolationLevel this (Some t) lvl tr = (Resolved JUndefined, tr))
   \<and> (parent t = None \<and> \<not> falsy_text (setAutocommitQuery (QueryGenerator this) v None) \<longrightarrow>
        (\<exists>sql. setAutocommitQuery (QueryGenerator this) v None = Some sql
           \<and> snd (setAutocommit this (Some t) v tr) = tr @ [sql]))
   \<and> (parent t = None \<and> \<not> falsy_text lvl
        \<and> \<not> falsy_text (setIsolationLevelQuery (QueryGenerator this) lvl None) \<longrightarrow>
        (\<exists>sql. setIsolationLevelQuery (QueryGenerator this) lvl None = Some sql
           \<and> snd (setIsolationLevel this (Some t) lvl tr) = tr @ [sql]))
   \<and> (parent t = None \<and> falsy_text lvl \<longrightarrow>
        setIsolationLevel this (Some t) lvl tr = (Resolved JUndefined, tr))"
proof (intro conjI impI)
  assume "parent t \<noteq> None"
  then show "setAutocommit this (Some t) v tr = (Resolved JUndefined, tr)"
    and "setIsolationLevel this (Some t) lvl tr = (Resolved JUndefined, tr)"
    by (simp_all add: setAutocommit_def setIsolationLevel_def)
next
  assume a: "parent t = None \<and> \<not> falsy_text (setAutocommitQuery (QueryGenerator this) v None)"
  then obtain sql where s: "setAutocommitQuery (QueryGenerator this) v None = Some sql" "sql \<noteq> []"
    by (cases "setAutocommitQuery (QueryGenerator this) v None") auto
  with a show "\<exists>sql. setAutocommitQuery (QueryGenerator this) v None = Some sql
           \<and> snd (setAutocommit this (Some t) v tr) = tr @ [sql]"
    by (simp add: setAutocommit_def settle_query_trace)
next
  assume a: "parent t = None \<and> \<not> falsy_text lvl
        \<and> \<not> falsy_text (setIsolationLevelQuery (QueryGenerator this) lvl None)"
  then obtain sql where s: "setIsolationLevelQuery (QueryGenerator this) lvl None = Some sql" "sql \<noteq> []"
    by (cases "setIsolationLevelQuery (QueryGenerator this) lvl None") auto
  with a show "\<exists>sql. setIsolationLevelQuery (QueryGenerator this) lvl None = Some sql
           \<and> snd (setIsolationLevel this (Some t) lvl tr) = tr @ [sql]"
    by (simp add: setIsolationLevel_def settle_query_trace)
next
  assume "parent t = None \<and> falsy_text lvl"
  then show "setIsolationLevel this (Some t) lvl tr = (Resolved JUndefined, tr)"
    by (simp add: setIsolationLevel_def)
qed

text \<open>The theorem at a savepoint handle and at a root handle with a level.\<close>

theorem savepoint_and_root_statements_witness:
  "setIsolationLevel (example_interface ''mysql'')
     (Some (Transaction (Some (Transaction None None None)) (Some ''sp1'') None))
     (Some ''SERIALIZABLE'') [] = (Resolved JUndefined, [])
   \<and> snd (setIsolationLevel (example_interface ''mysql'') (Some (Transaction None None None))
            (Some ''SERIALIZABLE'') [])
       = [''SET SESSION TRANSACTION ISOLATION LEVEL SERIALIZABLE;'']
   \<and> snd (setAutocommit (example_interface ''mysql'') (Some (Transaction None None None)) True [])
       = [''SET autocommit = 1;'']"
  using savepoint_and_root_statements [of "Transaction (Some (Transaction None None None)) (Some ''sp1'') None"
      "example_interface ''mysql''" True "[]" "Some ''SERIALIZABLE''"]
    savepoint_and_root_statements [of "Transaction None None None"
      "example_interface ''mysql''" True "[]" "Some ''SERIALIZABLE''"]
  by (simp add: example_interface_def example_generator_def)

text \<open>
  Claim C5 as stated fails: on a root handle, with no isolation level given, the generator
  has a statement and \<^verbatim>\<open>setIsolationLevel\<close> sends none.
\<close>

theorem isolation_level_counterexample:
  "parent (Transaction None None None) = None
   \<and> setIsolationLevelQuery (QueryGenerator (example_interface ''mysql'')) None None
       = Some ''SET SESSION TRANSACTION ISOLATION LEVEL undefined;''
   \<and> setIsolationLevel (example_interface ''mysql'') (Some (Transaction None None None)) None []
       = (Resolved JUndefined, [])"
  by (simp add: setIsolationLevel_def example_interface_def example_generator_def)



subsection \<open>Describing a table\<close>

text \<open>
  Claim C4. When the describe-table query returns an empty result, \<^verbatim>\<open>describeTable\<close> is
  rejected (with the message that no description was found) and does not resolve with an
  empty mapping; it resolves exactly when the query returns a result that is not empty,
  and then with that result.
\<close>

theorem describeTable_empty_rejected:
  "(run_describe (Sequelize this) tr (describe_statement this tableName opts) = Inr [] \<longrightarrow>
      (\<exists>msg. describeTable this tableName opts tr =
         (Rejected (RejectedWith msg), tr @ [describe_statement this tableName opts])))
   \<and> ((\<exists>d. fst (describeTable this tableName opts tr) = Resolved d) \<longleftrightarrow>
       (\<exists>data. data \<noteq> []
          \<and> run_describe (Sequelize this) tr (describe_statement this tableName opts) = Inr data))
   \<and> (\<forall>d. fst (describeTable this tableName opts tr) = Resolved d \<longrightarrow>
         d \<noteq> []
         \<and> run_describe (Sequelize this) tr (describe_statement this tableName opts) = Inr d)"
  by (cases "run_describe (Sequelize this) tr (describe_statement this tableName opts)")
     (auto simp: describeTable_def query_def)

text \<open>The theorem at an executor that describes nothing, and at one that describes a column.\<close>

theorem describeTable_empty_rejected_witness:
  "(\<exists>msg. describeTable
       ((example_interface ''postgres'')
          \<lparr> Sequelize := (example_sequelize ''postgres'') \<lparr> run_describe := accepting [] \<rparr> \<rparr>)
       (TName ''missing'') ArgAbsent [] = (Rejected (RejectedWith msg), [''DESCRIBE missing'']))
   \<and> (\<exists>d. fst (describeTable (example_interface ''postgres'') (TName ''t'') ArgAbsent []) = Resolved d)"
  using describeTable_empty_rejected [of
      "(example_interface ''postgres'')
          \<lparr> Sequelize := (example_sequelize ''postgres'') \<lparr> run_describe := accepting [] \<rparr> \<rparr>"
      "[]" "TName ''missing''" ArgAbsent]
    describeTable_empty_rejected [of "example_interface ''postgres''" "[]" "TName ''t''" ArgAbsent]
  by (simp add: example_interface_def example_sequelize_def example_generator_def accepting_def
        describe_statement_def describe_target_def)

subsection \<open>Renaming a column\<close>



text \<open>
  Names that are no column: one that \<^verbatim>\<open>Object.prototype\<close> has passes the test for the
  column, and the statement is generated from a definition whose type, nullability and
  default are \<^verbatim>\<open>undefined\<close>; any other name is rejected after the description.
\<close>

lemma renameColumn_no_column:
  "renameColumn (example_interface ''mysql'') (TName ''t'') ''constructor'' ''d'' example_options []
     = (Resolved JUndefined,
        [''DESCRIBE t'', ''ALTER TABLE t CHANGE constructor d undefined NOT NULL DEFAULT NULL''])
   \<and> renameColumn (example_interface ''mysql'') (TName ''t'') ''x'' ''d'' example_options []
     = (Rejected (Error ''Table t doesn't have the column x''), [''DESCRIBE t''])"
  by (simp add: renameColumn_def renameColumn_dispatch_def renameColumn_options_def
        description_get_def object_prototype_names_def describeTable_def describe_statement_def
        describe_target_def query_def example_interface_def example_sequelize_def
        example_generator_def example_options_def accepting_def)

subsection \<open>Adding a constraint\<close>

text \<open>
  Claim C8, as amended. In both call shapes, on every dialect and with every generator, a
  call of \<^verbatim>\<open>addConstraint\<close> without a constraint type throws before it returns, with no
  statement sent. With an options object that has no type, what is thrown is the error
  that the constraint type must be specified; with the options object itself left out,
  it is the engine's \<open>TypeError\<close> on reading a property of \<^verbatim>\<open>undefined\<close>.
\<close>

theorem addConstraint_without_type:
  assumes "case given_options args of None \<Rightarrow> True | Some ob \<Rightarrow> falsy_text (con_type ob)"
  shows "addConstraint this tableName args tr =
           (Thrown (case given_options args of
                      Some ob \<Rightarrow> Error ''Constraint type must be specified through options.type''
                    | None \<Rightarrow>
                        (case args of
                           WithAttributes attributes opts rawTablename \<Rightarrow> TypeError ''type''
                         | WithoutAttributes opts rawTablename \<Rightarrow> TypeError ''fields'')),
            tr)"
proof (cases args)
  case (WithAttributes attributes opts rawTablename)
  with assms show ?thesis
    by (cases opts) (simp_all add: addConstraint_def)
next
  case (WithoutAttributes opts rawTablename)
  with assms show ?thesis
    by (cases opts) (simp_all add: addConstraint_def)
qed

text \<open>
  The theorem at both call shapes with an options object that has no type, on sqlite and
  on mysql, and at a call without options.
\<close>

theorem addConstraint_without_type_witness:
  "addConstraint (example_interface ''sqlite'') (TName ''Users'')
     (WithAttributes [''email''] (Some \<lparr> con_type = None, con_fields = None, con_name = Some ''u'' \<rparr>) None) []
     = (Thrown (Error ''Constraint type must be specified through options.type''), [])
   \<and> addConstraint (example_interface ''mysql'') (TName ''Users'')
     (WithoutAttributes (Some \<lparr> con_type = None, con_fields = Some [''email''], con_name = None \<rparr>) None) []
     = (Thrown (Error ''Constraint type must be specified through options.type''), [])
   \<and> addConstraint (example_interface ''mysql'') (TName ''Users'') (WithoutAttributes None None) []
     = (Thrown (TypeError ''fields''), [])"
  using addConstraint_without_type [of
      "WithAttributes [''email''] (Some \<lparr> con_type = None, con_fields = None, con_name = Some ''u'' \<rparr>) None"
      "example_interface ''sqlite''" "TName ''Users''" "[]"]
    addConstraint_without_type [of
      "WithoutAttributes (Some \<lparr> con_type = None, con_fields = Some [''email''], con_name = None \<rparr>) None"
      "example_interface ''mysql''" "TName ''Users''" "[]"]
    addConstraint_without_type [of "WithoutAttributes None None"
      "example_interface ''mysql''" "TName ''Users''" "[]"]
  by simp

text \<open>
  Claim C8 as stated fails: called with the attributes and no options, \<^verbatim>\<open>addConstraint\<close>
  throws a \<open>TypeError\<close>, which is not the error that the constraint type must be
  specified.
\<close>

theorem addConstraint_without_options_counterexample:
  "addConstraint (example_interface ''mysql'') (TName ''Users'')
     (WithAttributes [''email''] None None) [] = (Thrown (TypeError ''type''), [])
   \<and> TypeError ''type'' \<noteq> Error ''Constraint type must be specified through options.type''"
  by (simp add: addConstraint_def)

subsection \<open>Foreign keys of several tables\<close>











subsection \<open>The where clause of an upsert\<close>

lemma uniq_from_set: "set (uniq_from seen xs) = set xs - set seen"
  by (induction xs arbitrary: seen) auto

lemma uniq_from_distinct: "distinct (uniq_from seen xs)"
  by (induction xs arbitrary: seen) (auto simp: uniq_from_set)

lemma intersection_length: "length (intersection xs ys) = card (set xs \<inter> set ys)"
proof -
  have "distinct (intersection xs ys)"
    by (simp add: intersection_def uniq_from_distinct)
  moreover have "set (intersection xs ys) = set xs \<inter> set ys"
    by (auto simp: intersection_def uniq_from_set)
  ultimately show ?thesis
    by (metis distinct_card)
qed

lemma intersection_covers:
  "length (intersection xs ys) = length ys \<longleftrightarrow> distinct ys \<and> set ys \<subseteq> set xs"
proof
  assume eq: "length (intersection xs ys) = length ys"
  have le1: "card (set xs \<inter> set ys) \<le> card (set ys)"
    by (simp add: card_mono)
  have le2: "card (set ys) \<le> length ys"
    by (rule card_length)
  from eq le1 le2 have c: "card (set ys) = length ys" and c': "card (set xs \<inter> set ys) = card (set ys)"
    by (simp_all add: intersection_length)
  from c have "distinct ys" by (rule card_distinct)
  moreover from c' have "set xs \<inter> set ys = set ys"
    by (intro card_subset_eq) simp_all
  ultimately show "distinct ys \<and> set ys \<subseteq> set xs" by blast
next
  assume a: "distinct ys \<and> set ys \<subseteq> set xs"
  then have "set xs \<inter> set ys = set ys" by blast
  with a show "length (intersection xs ys) = length ys"
    by (simp add: intersection_length distinct_card)
qed

lemma update_fresh: "k \<notin> fst ` set w \<Longrightarrow> AList.update k v w = w @ [(k, v)]"
  by (induction w) auto

lemma index_where_distinct:
  "distinct index \<Longrightarrow> set index \<inter> fst ` set w = {} \<Longrightarrow>
   index_where insertValues index w = w @ map (\<lambda>field. (field, property insertValues field)) index"
proof (induction index arbitrary: w)
  case Nil
  then show ?case by simp
next
  case (Cons field index)
  from Cons.prems have fresh: "field \<notin> fst ` set w" by auto
  have "set index \<inter> fst ` set (w @ [(field, property insertValues field)]) = {}"
    using Cons.prems by auto
  with Cons.IH [of "w @ [(field, property insertValues field)]"] Cons.prems(1) fresh
  show ?case by (simp add: update_fresh)
qed

lemma index_wheres_filter:
  "index_wheres insertValues ixs wheres =
     wheres @ map (\<lambda>index. WhereFields (map (\<lambda>field. (field, property insertValues field)) index))
                (filter (\<lambda>index. distinct index \<and> set index \<subseteq> fst ` set insertValues) ixs)"
proof (induction ixs arbitrary: wheres)
  case Nil
  then show ?case by simp
next
  case (Cons index ixs)
  show ?case
  proof (cases "distinct index \<and> set index \<subseteq> fst ` set insertValues")
    case True
    then have "length (intersection (map fst insertValues) index) = length index"
      by (simp add: intersection_covers)
    moreover from True have "index_where insertValues index [] =
        map (\<lambda>field. (field, property insertValues field)) index"
      using index_where_distinct [of index "[]" insertValues] by simp
    ultimately show ?thesis
      using True Cons.IH by simp
  next
    case False
    then have "length (intersection (map fst insertValues) index) \<noteq> length index"
      by (simp add: intersection_covers)
    with False Cons.IH show ?thesis by auto
  qed
qed

text \<open>
  Claim C2, as amended. The where clause that \<^verbatim>\<open>upsert\<close> passes to the generator is the
  disjunction of the caller's predicate, when it is not empty, and of one equality
  predicate, built from the insert values, per unique key or unique index of the model
  whose fields are pairwise distinct and all among the keys of the insert values; the
  statement sent is generated from this clause.
\<close>

theorem upsert_where_disjunction:
  "upsert_where this insertValues wh m =
     WhereOr ((if isWhereEmpty (Utils this) wh then [] else [wh])
              @ map (\<lambda>index. WhereFields (map (\<lambda>field. (field, property insertValues field)) index))
                  (filter (\<lambda>index. distinct index \<and> set index \<subseteq> fst ` set insertValues)
                     (upsert_indexes m)))
   \<and> snd (upsert this tableName insertValues updateValues wh m opts tr) =
       tr @ [upsertQuery (QueryGenerator this) tableName insertValues updateValues
               (upsert_where this insertValues wh m) m opts]"
proof
  show "upsert_where this insertValues wh m =
     WhereOr ((if isWhereEmpty (Utils this) wh then [] else [wh])
              @ map (\<lambda>index. WhereFields (map (\<lambda>field. (field, property insertValues field)) index))
                  (filter (\<lambda>index. distinct index \<and> set index \<subseteq> fst ` set insertValues)
                     (upsert_indexes m)))"
    by (simp add: upsert_where_def index_wheres_filter)
  show "snd (upsert this tableName insertValues updateValues wh m opts tr) =
       tr @ [upsertQuery (QueryGenerator this) tableName insertValues updateValues
               (upsert_where this insertValues wh m) m opts]"
    by (simp add: upsert_def upsert_statement_def query_def split: sum.splits)
qed

text \<open>The theorem at a model with one unique key that is supplied and one that is not.\<close>

theorem upsert_where_disjunction_witness:
  "upsert_where (example_interface ''mysql'') [(''id'', JNum 1), (''email'', JStr ''a@x.com'')]
     (WhereFields [(''email'', JStr ''a@x.com'')])
     (example_model [(''email_unique'', [''email'']), (''name_unique'', [''name''])])
   = WhereOr [WhereFields [(''email'', JStr ''a@x.com'')], WhereFields [(''email'', JStr ''a@x.com'')]]"
  using upsert_where_disjunction [of "example_interface ''mysql''"
      "[(''id'', JNum 1), (''email'', JStr ''a@x.com'')]" "WhereFields [(''email'', JStr ''a@x.com'')]"
      "example_model [(''email_unique'', [''email'']), (''name_unique'', [''name''])]"]
  by (simp add: example_interface_def example_model_def upsert_indexes_def property_def)

text \<open>
  Claim C2 as stated fails: for a unique key that names the field \<^verbatim>\<open>a\<close> twice, all its
  fields are among the insert values, and \<^verbatim>\<open>upsert\<close> builds no predicate for it.
\<close>

theorem upsert_where_counterexample:
  "upsert_where (example_interface ''mysql'') [(''a'', JNum 1)] (WhereFields [])
     (example_model [(''k'', [''a'', ''a''])]) = WhereOr []
   \<and> claimed_upsert_where (example_interface ''mysql'') [(''a'', JNum 1)] (WhereFields [])
     (example_model [(''k'', [''a'', ''a''])]) = WhereOr [WhereFields [(''a'', JNum 1)]]"
  by (simp add: upsert_where_def claimed_upsert_where_def example_interface_def example_model_def
        upsert_indexes_def intersection_def property_def)

subsection \<open>The result of an upsert\<close>

text \<open>
  Claim C3, as amended. When the upsert statement succeeds with a raw result, \<^verbatim>\<open>upsert\<close>
  resolves, on mysql, with the pair of the boolean \<^verbatim>\<open>result === 1\<close> and \<^verbatim>\<open>undefined\<close>; on
  mssql, for a row, with the boolean \<^verbatim>\<open>$action === 'INSERT'\<close> and the row's primary key
  field; on postgres, for a row, with the row's \<^verbatim>\<open>created\<close> and \<^verbatim>\<open>primary_key\<close> as they
  are; on every other dialect with the raw result itself and \<^verbatim>\<open>undefined\<close>.
\<close>

theorem upsert_result_by_dialect:
  assumes "run (Sequelize this) tr
             (upsert_statement this tableName insertValues updateValues wh m opts) = Inr result"
  shows "snd (upsert this tableName insertValues updateValues wh m opts tr) =
           tr @ [upsert_statement this tableName insertValues updateValues wh m opts]
       \<and> (dialect (Sequelize this) = ''mysql'' \<longrightarrow>
            fst (upsert this tableName insertValues updateValues wh m opts tr) =
              Resolved (JBool (result = JNum 1), JUndefined))
       \<and> (dialect (Sequelize this) = ''mssql'' \<longrightarrow>
            (\<forall>row. result = JObj row \<longrightarrow>
               fst (upsert this tableName insertValues updateValues wh m opts tr) =
                 Resolved (JBool (property row ''$action'' = JStr ''INSERT''),
                           property row (primaryKeyField m))))
       \<and> (dialect (Sequelize this) = ''postgres'' \<longrightarrow>
            (\<forall>row. result = JObj row \<longrightarrow>
               fst (upsert this tableName insertValues updateValues wh m opts tr) =
                 Resolved (property row ''created'', property row ''primary_key'')))
       \<and> (dialect (Sequelize this) \<noteq> ''postgres'' \<and> dialect (Sequelize this) \<noteq> ''mssql''
            \<and> dialect (Sequelize this) \<noteq> ''mysql'' \<longrightarrow>
            fst (upsert this tableName insertValues updateValues wh m opts tr) =
              Resolved (result, JUndefined))"
proof -
  have tr: "snd (upsert this tableName insertValues updateValues wh m opts tr) =
           tr @ [upsert_statement this tableName insertValues updateValues wh m opts]"
    using assms by (simp add: upsert_def query_def split: sum.splits)
  have res: "fst (upsert this tableName insertValues updateValues wh m opts tr) =
      (case upsert_result (dialect (Sequelize this)) m result of
         Inl e \<Rightarrow> Rejected e | Inr pair \<Rightarrow> Resolved pair)"
    using assms by (simp add: upsert_def query_def split: sum.splits)
  show ?thesis
    unfolding res using tr
    by (auto simp: upsert_result_def property_def)
qed

text \<open>The theorem on mysql, at the raw results 1 and 2.\<close>

theorem upsert_result_by_dialect_witness:
  "fst (upsert (with_run (accepting (JNum 1)) (example_interface ''mysql'')) (TName ''Users'')
          [(''id'', JNum 1)] [(''id'', JNum 1)] (WhereFields []) (example_model []) example_options [])
     = Resolved (JBool True, JUndefined)
   \<and> fst (upsert (with_run (accepting (JNum 2)) (example_interface ''mysql'')) (TName ''Users'')
          [(''id'', JNum 1)] [(''id'', JNum 1)] (WhereFields []) (example_model []) example_options [])
     = Resolved (JBool False, JUndefined)"
  using upsert_result_by_dialect [of "with_run (accepting (JNum 1)) (example_interface ''mysql'')"
      "[]" "TName ''Users''" "[(''id'', JNum 1)]" "[(''id'', JNum 1)]" "WhereFields []"
      "example_model []" example_options "JNum 1"]
    upsert_result_by_dialect [of "with_run (accepting (JNum 2)) (example_interface ''mysql'')"
      "[]" "TName ''Users''" "[(''id'', JNum 1)]" "[(''id'', JNum 1)]" "WhereFields []"
      "example_model []" example_options "JNum 2"]
  by (simp add: with_run_def example_interface_def example_sequelize_def accepting_def)

text \<open>
  Claim C3 as stated fails: on sqlite the raw result 2 of the executor is returned to the
  caller as the first component of the pair, where a boolean is claimed.
\<close>

theorem upsert_raw_result_counterexample:
  "upsert (with_run (accepting (JNum 2)) (example_interface ''sqlite'')) (TName ''Users'')
     [(''id'', JNum 1)] [(''id'', JNum 1)] (WhereFields []) (example_model []) example_options []
     = (Resolved (JNum 2, JUndefined), [''UPSERT Users''])"
  by (simp add: upsert_def upsert_statement_def upsert_result_def query_def with_run_def
        example_interface_def example_sequelize_def example_generator_def accepting_def)


subsection \<open>Dropping all tables on sqlite\<close>

lemma dropTable_plain:
  assumes "dialect (Sequelize this) \<noteq> ''postgres''"
  shows "dropTable this tableName (opts \<lparr> cascade := True \<rparr>) tr =
           (case run (Sequelize this) tr
                   (dropTableQuery (QueryGenerator this) tableName (opts \<lparr> cascade := True \<rparr>)) of
              Inl e \<Rightarrow> Rejected e
            | Inr r \<Rightarrow> Resolved JUndefined,
            tr @ [dropTableQuery (QueryGenerator this) tableName (opts \<lparr> cascade := True \<rparr>)])"
  using assms
  by (simp add: dropTable_def enum_drops_def query_def Let_def split: sum.splits)

lemma drop_each_all:
  assumes "dialect (Sequelize this) \<noteq> ''postgres''"
    and "\<forall>i<length (filter (not_skipped (case skip opts of None \<Rightarrow> [] | Some sk \<Rightarrow> sk)) ts).
           \<exists>r. run (Sequelize this)
                  (tr @ map (\<lambda>t. dropTableQuery (QueryGenerator this) t (opts \<lparr> cascade := True \<rparr>))
                          (take i (filter (not_skipped (case skip opts of None \<Rightarrow> [] | Some sk \<Rightarrow> sk)) ts)))
                  (dropTableQuery (QueryGenerator this)
                     (filter (not_skipped (case skip opts of None \<Rightarrow> [] | Some sk \<Rightarrow> sk)) ts ! i)
                     (opts \<lparr> cascade := True \<rparr>)) = Inr r"
  shows "drop_each this opts ts tr =
           (Resolved (),
            tr @ map (\<lambda>t. dropTableQuery (QueryGenerator this) t (opts \<lparr> cascade := True \<rparr>))
                   (filter (not_skipped (case skip opts of None \<Rightarrow> [] | Some sk \<Rightarrow> sk)) ts))"
  using assms(2)
proof (induction ts arbitrary: tr)
  case Nil
  then show ?case by simp
next
  case (Cons t ts)
  let ?sk = "case skip opts of None \<Rightarrow> [] | Some sk \<Rightarrow> sk"
  let ?drop = "\<lambda>t. dropTableQuery (QueryGenerator this) t (opts \<lparr> cascade := True \<rparr>)"
  let ?ds = "filter (not_skipped ?sk) ts"
  show ?case
  proof (cases "not_skipped ?sk t")
    case False
    with Cons.IH [of tr] Cons.prems show ?thesis by simp
  next
    case True
    from Cons.prems [THEN spec, of 0] True
    obtain r where r: "run (Sequelize this) tr (?drop t) = Inr r" by auto
    have "\<forall>i<length ?ds. \<exists>r. run (Sequelize this) ((tr @ [?drop t]) @ map ?drop (take i ?ds))
            (?drop (?ds ! i)) = Inr r"
    proof (intro allI impI)
      fix i assume "i < length ?ds"
      with Cons.prems [THEN spec, of "Suc i"] True
      show "\<exists>r. run (Sequelize this) ((tr @ [?drop t]) @ map ?drop (take i ?ds))
            (?drop (?ds ! i)) = Inr r" by simp
    qed
    from Cons.IH [OF this] True r show ?thesis
      by (simp add: dropTable_plain [OF assms(1)])
  qed
qed

lemma drop_each_fails:
  assumes "dialect (Sequelize this) \<noteq> ''postgres''"
    and "k < length (filter (not_skipped (case skip opts of None \<Rightarrow> [] | Some sk \<Rightarrow> sk)) ts)"
    and "\<forall>i<k.
           \<exists>r. run (Sequelize this)
                  (tr @ map (\<lambda>t. dropTableQuery (QueryGenerator this) t (opts \<lparr> cascade := True \<rparr>))
                          (take i (filter (not_skipped (case skip opts of None \<Rightarrow> [] | Some sk \<Rightarrow> sk)) ts)))
                  (dropTableQuery (QueryGenerator this)
                     (filter (not_skipped (case skip opts of None \<Rightarrow> [] | Some sk \<Rightarrow> sk)) ts ! i)
                     (opts \<lparr> cascade := True \<rparr>)) = Inr r"
    and "run (Sequelize this)
           (tr @ map (\<lambda>t. dropTableQuery (QueryGenerator this) t (opts \<lparr> cascade := True \<rparr>))
                   (take k (filter (not_skipped (case skip opts of None \<Rightarrow> [] | Some sk \<Rightarrow> sk)) ts)))
           (dropTableQuery (QueryGenerator this)
              (filter (not_skipped (case skip opts of None \<Rightarrow> [] | Some sk \<Rightarrow> sk)) ts ! k)
              (opts \<lparr> cascade := True \<rparr>)) = Inl e"
  shows "drop_each this opts ts tr =
           (Rejected e,
            tr @ map (\<lambda>t. dropTableQuery (QueryGenerator this) t (opts \<lparr> cascade := True \<rparr>))
                   (take (Suc k) (filter (not_skipped (case skip opts of None \<Rightarrow> [] | Some sk \<Rightarrow> sk)) ts)))"
  using assms(2-4)
proof (induction ts arbitrary: tr k)
  case Nil
  then show ?case by simp
next
  case (Cons t ts)
  let ?sk = "case skip opts of None \<Rightarrow> [] | Some sk \<Rightarrow> sk"
  let ?drop = "\<lambda>t. dropTableQuery (QueryGenerator this) t (opts \<lparr> cascade := True \<rparr>)"
  let ?ds = "filter (not_skipped ?sk) ts"
  show ?case
  proof (cases "not_skipped ?sk t")
    case False
    with Cons.IH [of k tr] Cons.prems show ?thesis by simp
  next
    case True
    show ?thesis
    proof (cases k)
      case 0
      with Cons.prems(3) True have "run (Sequelize this) tr (?drop t) = Inl e" by simp
      with True 0 show ?thesis
        by (simp add: dropTable_plain [OF assms(1)])
    next
      case (Suc k')
      from Cons.prems(2) [THEN spec, of 0] True Suc
      obtain r where r: "run (Sequelize this) tr (?drop t) = Inr r" by auto
      have k': "k' < length ?ds" using Cons.prems(1) True Suc by simp
      have ok: "\<forall>i<k'. \<exists>r. run (Sequelize this) ((tr @ [?drop t]) @ map ?drop (take i ?ds))
            (?drop (?ds ! i)) = Inr r"
      proof (intro allI impI)
        fix i assume "i < k'"
        with Cons.prems(2) [THEN spec, of "Suc i"] True Suc
        show "\<exists>r. run (Sequelize this) ((tr @ [?drop t]) @ map ?drop (take i ?ds))
            (?drop (?ds ! i)) = Inr r" by simp
      qed
      have bad: "run (Sequelize this) ((tr @ [?drop t]) @ map ?drop (take k' ?ds))
            (?drop (?ds ! k')) = Inl e"
        using Cons.prems(3) True Suc by simp
      from Cons.IH [OF k' ok bad] True r Suc show ?thesis
        by (simp add: dropTable_plain [OF assms(1)])
    qed
  qed
qed


text \<open>
  Claim C6, as amended. On sqlite, when enforcement is found enabled and has been switched
  off, \<^verbatim>\<open>dropAllTables\<close> drops the tables that are not skipped, in order. If every drop
  succeeds, the statement that switches enforcement on again is sent after the last drop.
  If a drop fails, \<^verbatim>\<open>dropAllTables\<close> is rejected with that failure and the failed drop
  is the last statement sent: neither the remaining drops nor the statement that
  switches enforcement on again follow.
\<close>

theorem dropAllTables_sqlite_enforcement:
  assumes "dialect (Sequelize this) = ''sqlite''"
    and "run_showtables (Sequelize this) tr (showTablesQuery (QueryGenerator this)) = Inr tables"
    and "run (Sequelize this) (tr @ [showTablesQuery (QueryGenerator this)])
           ''PRAGMA foreign_keys;'' = Inr result"
    and "js_get result ''foreign_keys'' = Inr (JNum 1)"
    and "run (Sequelize this) (tr @ [showTablesQuery (QueryGenerator this), ''PRAGMA foreign_keys;''])
           ''PRAGMA foreign_keys = OFF'' = Inr r"
    and "started = tr @ [showTablesQuery (QueryGenerator this), ''PRAGMA foreign_keys;'',
                         ''PRAGMA foreign_keys = OFF'']"
    and "ds = tables_to_drop opts (concat tables)"
  shows "((\<forall>i<length ds. \<exists>r. run (Sequelize this)
                (started @ map (drop_statement this opts) (take i ds))
                (drop_statement this opts (ds ! i)) = Inr r) \<longrightarrow>
          snd (dropAllTables this opts tr) =
            started @ map (drop_statement this opts) ds @ [''PRAGMA foreign_keys = ON''])
       \<and> (\<forall>k e. k < length ds
              \<and> (\<forall>i<k. \<exists>r. run (Sequelize this)
                      (started @ map (drop_statement this opts) (take i ds))
                      (drop_statement this opts (ds ! i)) = Inr r)
              \<and> run (Sequelize this) (started @ map (drop_statement this opts) (take k ds))
                    (drop_statement this opts (ds ! k)) = Inl e \<longrightarrow>
            dropAllTables this opts tr =
              (Rejected e, started @ map (drop_statement this opts) (take (Suc k) ds)))"
proof -
  have np: "dialect (Sequelize this) \<noteq> ''postgres''"
    using assms(1) by simp
  have drop_fun: "drop_statement this opts =
      (\<lambda>t. dropTableQuery (QueryGenerator this) t (opts \<lparr> cascade := True \<rparr>))"
    by (rule ext) (simp add: drop_statement_def)
  have head: "dropAllTables this opts tr =
      (case drop_each this opts (concat tables) started of
         (Thrown e, tr4) \<Rightarrow> (Rejected e, tr4)
       | (Rejected e, tr4) \<Rightarrow> (Rejected e, tr4)
       | (Resolved u, tr4) \<Rightarrow>
           (case query (run (Sequelize this)) ''PRAGMA foreign_keys = ON'' tr4 of
              (Inl e, tr5) \<Rightarrow> (Rejected e, tr5)
            | (Inr r', tr5) \<Rightarrow> (Resolved (), tr5)))"
    using assms(1-6) by (simp add: dropAllTables_def showAllTables_def query_def)
  show ?thesis
  proof (intro conjI allI impI)
    assume "\<forall>i<length ds. \<exists>r. run (Sequelize this)
                (started @ map (drop_statement this opts) (take i ds))
                (drop_statement this opts (ds ! i)) = Inr r"
    then have "drop_each this opts (concat tables) started =
        (Resolved (), started @ map (drop_statement this opts) ds)"
      unfolding drop_fun assms(7) tables_to_drop_def
      by (rule drop_each_all [OF np])
    then show "snd (dropAllTables this opts tr) =
            started @ map (drop_statement this opts) ds @ [''PRAGMA foreign_keys = ON'']"
      by (simp add: head query_def split: sum.splits)
  next
    fix k e
    assume a: "k < length ds
              \<and> (\<forall>i<k. \<exists>r. run (Sequelize this)
                      (started @ map (drop_statement this opts) (take i ds))
                      (drop_statement this opts (ds ! i)) = Inr r)
              \<and> run (Sequelize this) (started @ map (drop_statement this opts) (take k ds))
                    (drop_statement this opts (ds ! k)) = Inl e"
    have "drop_each this opts (concat tables) started =
        (Rejected e, started @ map (drop_statement this opts) (take (Suc k) ds))"
      unfolding drop_fun assms(7) tables_to_drop_def
      by (rule drop_each_fails [OF np])
         (use a in \<open>simp_all add: drop_fun assms(7) tables_to_drop_def\<close>)
    then show "dropAllTables this opts tr =
              (Rejected e, started @ map (drop_statement this opts) (take (Suc k) ds))"
      by (simp add: head)
  qed
qed

text \<open>
  Claim C6 as stated fails: the drop of the first table is rejected, and enforcement is
  not switched on again.
\<close>

theorem dropAllTables_failed_drop_counterexample:
  "dropAllTables (with_run (example_sqlite_run [''DROP TABLE a'']) (example_interface ''sqlite''))
     example_options []
   = (Rejected (DatabaseError ''DROP TABLE a''),
      [''SHOW TABLES;'', ''PRAGMA foreign_keys;'', ''PRAGMA foreign_keys = OFF'', ''DROP TABLE a''])"
  by (simp add: dropAllTables_def showAllTables_def dropTable_def enum_drops_def query_def
        with_run_def example_sqlite_run_def example_interface_def example_sequelize_def
        example_generator_def example_options_def accepting_def Let_def)


text \<open>The theorem at two tables, with every drop accepted and with the second rejected.\<close>

theorem dropAllTables_sqlite_enforcement_witness:
  "snd (dropAllTables (with_run (example_sqlite_run []) (example_interface ''sqlite''))
          example_options [])
     = [''SHOW TABLES;'', ''PRAGMA foreign_keys;'', ''PRAGMA foreign_keys = OFF'',
        ''DROP TABLE a'', ''DROP TABLE b'', ''PRAGMA foreign_keys = ON'']
   \<and> dropAllTables (with_run (example_sqlite_run [''DROP TABLE b'']) (example_interface ''sqlite''))
          example_options []
     = (Rejected (DatabaseError ''DROP TABLE b''),
        [''SHOW TABLES;'', ''PRAGMA foreign_keys;'', ''PRAGMA foreign_keys = OFF'',
         ''DROP TABLE a'', ''DROP TABLE b''])"
proof -
  let ?good = "with_run (example_sqlite_run []) (example_interface ''sqlite'')"
  let ?bad = "with_run (example_sqlite_run [''DROP TABLE b'']) (example_interface ''sqlite'')"
  let ?started = "[''SHOW TABLES;'', ''PRAGMA foreign_keys;'', ''PRAGMA foreign_keys = OFF'']"
  let ?ds = "[TName ''a'', TName ''b'']"
  note defs = with_run_def example_sqlite_run_def example_interface_def example_sequelize_def
    example_generator_def example_options_def accepting_def
  have ds: "?ds = tables_to_drop example_options (concat [[TName ''a'', TName ''b'']])"
    by (simp add: tables_to_drop_def example_options_def)
  have all_ok: "\<forall>i<length ?ds. \<exists>r. run (Sequelize ?good)
                (?started @ map (drop_statement ?good example_options) (take i ?ds))
                (drop_statement ?good example_options (?ds ! i)) = Inr r"
    by (simp add: defs)
  have good: "snd (dropAllTables ?good example_options []) =
      ?started @ map (drop_statement ?good example_options) ?ds @ [''PRAGMA foreign_keys = ON'']"
    using dropAllTables_sqlite_enforcement [of ?good "[]" "[[TName ''a'', TName ''b'']]"
        "JObj [(''foreign_keys'', JNum 1)]" JUndefined ?started ?ds example_options,
        THEN conjunct1] all_ok ds
    by (simp add: defs)
  have first_ok: "\<forall>i<1. \<exists>r. run (Sequelize ?bad)
                (?started @ map (drop_statement ?bad example_options) (take i ?ds))
                (drop_statement ?bad example_options (?ds ! i)) = Inr r"
    by (simp add: defs drop_statement_def)
  have second_fails: "run (Sequelize ?bad)
                (?started @ map (drop_statement ?bad example_options) (take 1 ?ds))
                (drop_statement ?bad example_options (?ds ! 1)) = Inl (DatabaseError ''DROP TABLE b'')"
    by (simp add: defs drop_statement_def)
  have bad: "dropAllTables ?bad example_options [] =
      (Rejected (DatabaseError ''DROP TABLE b''),
       ?started @ map (drop_statement ?bad example_options) (take (Suc 1) ?ds))"
    using dropAllTables_sqlite_enforcement [of ?bad "[]" "[[TName ''a'', TName ''b'']]"
        "JObj [(''foreign_keys'', JNum 1)]" JUndefined ?started ?ds example_options,
        THEN conjunct2, THEN spec, THEN spec, of 1 "DatabaseError ''DROP TABLE b''"]
      first_ok second_fails ds
    by (simp add: defs)
  from good bad show ?thesis
    by (simp add: defs drop_statement_def)
qed

subsection \<open>Bulk delete\<close>

text \<open>
  Claim C9 fails on the code. With no global \<^verbatim>\<open>identifier\<close> and truncation not
  requested, \<^verbatim>\<open>bulkDelete\<close> hands the caller's own where object to the generator: no copy
  is allocated in the store, and a generator that rewrites its argument has rewritten the
  caller's object when the call returns.
\<close>

theorem bulkDelete_changes_caller_where:
  "bulkDelete (example_interface ''postgres'') Map.empty (TName ''t'') 0 example_options None
     [WhereFields [(''id'', JNum 1)]] []
     = (Resolved JUndefined, [WhereOr [WhereFields [(''id'', JNum 1)]]], [''DELETE FROM t''])"
  by (simp add: bulkDelete_def example_options_def example_interface_def example_generator_def
        example_deleteQuery_def example_sequelize_def accepting_def query_def)

end
